theory Spec2Isabelle
  imports Main
begin

section \<open>The process environment\<close>

text \<open>
  Both source files work on \<^verbatim>\<open>process.env\<close>, a table from variable names to
  strings. Reading a name that is not in the table gives \<^verbatim>\<open>undefined\<close>, here
  \<open>None\<close>. Every function of the source becomes a function that takes the table
  and, when it has a result, returns the result together with the table it
  leaves behind.
\<close>

type_synonym env = "string \<rightharpoonup> string"

text \<open>\<^verbatim>\<open>delete process.env.K\<close> and \<^verbatim>\<open>process.env.K = v\<close>.\<close>

definition delete_env :: "string \<Rightarrow> env \<Rightarrow> env" where
  "delete_env k e = e(k := None)"

definition assign_env :: "string \<Rightarrow> string \<Rightarrow> env \<Rightarrow> env" where
  "assign_env k v e = e(k \<mapsto> v)"

text \<open>
  The conditions of the source test values of type \<^verbatim>\<open>string | undefined\<close> for
  truthiness: \<^verbatim>\<open>undefined\<close> and the empty string are falsy, every other string
  is truthy. \<^verbatim>\<open>a || b\<close> and \<^verbatim>\<open>a && b\<close> return one of their operands.
\<close>

definition truthy :: "string option \<Rightarrow> bool" where
  "truthy v = (case v of None \<Rightarrow> False | Some s \<Rightarrow> s \<noteq> [])"

definition js_or :: "string option \<Rightarrow> string option \<Rightarrow> string option" where
  "js_or a b = (if truthy a then a else b)"

definition js_and :: "string option \<Rightarrow> string option \<Rightarrow> string option" where
  "js_and a b = (if truthy a then b else a)"

section \<open>auth/env.ts: the auth environment configurator\<close>

text \<open>
  The three credential interfaces. An optional field \<^verbatim>\<open>f?: string\<close> is a
  \<open>string option\<close>. \<^verbatim>\<open>ProxyCredentials\<close> has fields \<^verbatim>\<open>apiKey\<close> and \<^verbatim>\<open>baseUrl\<close>
  too, with other types than in \<^verbatim>\<open>ApiKeyCredentials\<close>; they are \<open>proxyApiKey\<close>
  and \<open>proxyBaseUrl\<close> here.
\<close>

record ApiKeyCredentials =
  apiKey :: string
  baseUrl :: "string option"

record ClaudeMaxCredentials =
  oauthToken :: string

record ProxyCredentials =
  authToken :: "string option"
  proxyApiKey :: "string option"
  proxyBaseUrl :: string

datatype AuthCredentials =
    api_key ApiKeyCredentials
  | oauth_token ClaudeMaxCredentials
  | proxy ProxyCredentials

text \<open>
  \<^verbatim>\<open>setAuthEnvironment\<close>: four deletes, then the switch on the tag. The guards
  \<^verbatim>\<open>if (auth.credentials.baseUrl)\<close>, \<^verbatim>\<open>if (auth.credentials.authToken)\<close> and
  \<^verbatim>\<open>if (auth.credentials.apiKey)\<close> are truthiness tests.
\<close>

definition setAuthEnvironment :: "AuthCredentials \<Rightarrow> env \<Rightarrow> env" where
  "setAuthEnvironment auth e =
     (let e1 = delete_env ''ANTHROPIC_API_KEY'' e;
          e2 = delete_env ''CLAUDE_CODE_OAUTH_TOKEN'' e1;
          e3 = delete_env ''ANTHROPIC_AUTH_TOKEN'' e2;
          e4 = delete_env ''ANTHROPIC_BASE_URL'' e3
      in case auth of
           api_key c \<Rightarrow>
             (let e5 = assign_env ''ANTHROPIC_API_KEY'' (apiKey c) e4
              in case baseUrl c of
                   Some b \<Rightarrow> if b \<noteq> [] then assign_env ''ANTHROPIC_BASE_URL'' b e5 else e5
                 | None \<Rightarrow> e5)
         | oauth_token c \<Rightarrow>
             assign_env ''CLAUDE_CODE_OAUTH_TOKEN'' (oauthToken c) e4
         | proxy c \<Rightarrow>
             (let e5 = assign_env ''ANTHROPIC_BASE_URL'' (proxyBaseUrl c) e4;
                  e6 = (case authToken c of
                          Some t \<Rightarrow> if t \<noteq> [] then assign_env ''ANTHROPIC_AUTH_TOKEN'' t e5 else e5
                        | None \<Rightarrow> e5)
              in case proxyApiKey c of
                   Some k \<Rightarrow> if k \<noteq> [] then assign_env ''ANTHROPIC_API_KEY'' k e6 else e6
                 | None \<Rightarrow> e6))"

definition clearAuthEnvironment :: "env \<Rightarrow> env" where
  "clearAuthEnvironment e =
     (let e1 = delete_env ''ANTHROPIC_API_KEY'' e;
          e2 = delete_env ''CLAUDE_CODE_OAUTH_TOKEN'' e1;
          e3 = delete_env ''ANTHROPIC_AUTH_TOKEN'' e2
      in delete_env ''ANTHROPIC_BASE_URL'' e3)"

definition isProxyAuthConfigured :: "env \<Rightarrow> bool \<times> env" where
  "isProxyAuthConfigured e =
     (truthy (js_and (e ''ANTHROPIC_BASE_URL'')
                (js_or (e ''ANTHROPIC_AUTH_TOKEN'') (e ''ANTHROPIC_API_KEY''))), e)"

section \<open>credentials/backends/env.ts: the environment credential backend\<close>

text \<open>
  \<^verbatim>\<open>CredentialId\<close> and \<^verbatim>\<open>StoredCredential\<close> are declared in \<^verbatim>\<open>../types.ts\<close>, which
  is not among the sources; the records have the fields the backend reads and
  writes. The type of a credential is one of a closed union of string literals,
  none of which names a property that an object literal inherits, so
  \<^verbatim>\<open>ENV_MAP[id.type]\<close> is a lookup among the three keys written in the literal.
  The parameter \<^verbatim>\<open>id\<close> is \<open>cid\<close>, and
  the field \<^verbatim>\<open>value\<close> is \<open>cred_value\<close>.
\<close>

record CredentialId =
  type :: string
  workspaceId :: "string option"

record StoredCredential =
  cred_value :: string

text \<open>\<^verbatim>\<open>Partial<CredentialId>\<close>, the filter argument of \<^verbatim>\<open>list\<close>.\<close>

record PartialCredentialId =
  filter_type :: "string option"
  filter_workspaceId :: "string option"

text \<open>The only error the backend throws: \<^verbatim>\<open>Error('Environment backend is read-only')\<close>.\<close>

datatype error = ReadOnly

text \<open>The entries of \<^verbatim>\<open>ENV_MAP\<close> in the order \<^verbatim>\<open>Object.entries\<close> gives them.\<close>

definition ENV_MAP :: "(string \<times> string list) list" where
  "ENV_MAP =
     [(''anthropic_api_key'', [''CRAFT_ANTHROPIC_API_KEY'', ''ANTHROPIC_API_KEY'']),
      (''claude_oauth'', [''CRAFT_CLAUDE_OAUTH_TOKEN'']),
      (''anthropic_auth_token'', [''ANTHROPIC_AUTH_TOKEN''])]"

definition hasEnvProxyConfig :: "env \<Rightarrow> bool \<times> env" where
  "hasEnvProxyConfig e =
     (truthy (js_and (e ''ANTHROPIC_BASE_URL'')
                (js_or (e ''ANTHROPIC_AUTH_TOKEN'') (e ''ANTHROPIC_API_KEY''))), e)"

fun getEnvValue :: "string list \<Rightarrow> env \<Rightarrow> string option" where
  "getEnvValue [] e = None"
| "getEnvValue (envVar # rest) e =
     (if truthy (e envVar) then e envVar else getEnvValue rest e)"

text \<open>
  The methods of \<^verbatim>\<open>EnvironmentBackend\<close>. A rejected promise is \<open>Inl\<close>, a resolved
  one \<open>Inr\<close>; \<^verbatim>\<open>null\<close> is \<open>None\<close>.
\<close>

definition EnvironmentBackend_get ::
  "CredentialId \<Rightarrow> env \<Rightarrow> (error + StoredCredential option) \<times> env" where
  "EnvironmentBackend_get cid e =
     (if truthy (workspaceId cid) then (Inr None, e)
      else case map_of ENV_MAP (type cid) of
             None \<Rightarrow> (Inr None, e)
           | Some envVars \<Rightarrow>
               (case getEnvValue envVars e of
                  None \<Rightarrow> (Inr None, e)
                | Some v \<Rightarrow> if v = [] then (Inr None, e)
                            else (Inr (Some \<lparr>cred_value = v\<rparr>), e)))"

definition EnvironmentBackend_set ::
  "CredentialId \<Rightarrow> StoredCredential \<Rightarrow> env \<Rightarrow> (error + unit) \<times> env" where
  "EnvironmentBackend_set cid credential e = (Inl ReadOnly, e)"

definition EnvironmentBackend_delete ::
  "CredentialId \<Rightarrow> env \<Rightarrow> (error + bool) \<times> env" where
  "EnvironmentBackend_delete cid e = (Inr False, e)"

text \<open>The loop of \<^verbatim>\<open>list\<close> over the entries, pushing onto \<^verbatim>\<open>ids\<close>.\<close>

fun list_loop :: "(string \<times> string list) list \<Rightarrow> env \<Rightarrow> CredentialId list \<Rightarrow> CredentialId list" where
  "list_loop [] e ids = ids"
| "list_loop ((t, envVars) # rest) e ids =
     list_loop rest e
       (if truthy (getEnvValue envVars e) then ids @ [\<lparr>type = t, workspaceId = None\<rparr>] else ids)"

definition EnvironmentBackend_list ::
  "PartialCredentialId option \<Rightarrow> env \<Rightarrow> (error + CredentialId list) \<times> env" where
  "EnvironmentBackend_list filter_arg e = (Inr (list_loop ENV_MAP e []), e)"

section \<open>Helper lemmas\<close>

lemma truthy_simps [simp]:
  "truthy None = False"
  "truthy (Some s) = (s \<noteq> [])"
  by (simp_all add: truthy_def)

lemmas env_ops = delete_env_def assign_env_def Let_def

subsection \<open>The lookup loop\<close>

lemma truthy_getEnvValue:
  "truthy (getEnvValue envVars e) = (\<exists>k \<in> set envVars. truthy (e k))"
  by (induction envVars) auto

lemma getEnvValue_find:
  "getEnvValue envVars e =
     (case find (\<lambda>k. truthy (e k)) envVars of None \<Rightarrow> None | Some k \<Rightarrow> e k)"
  by (induction envVars) simp_all

lemma getEnvValue_all_falsy:
  "(\<And>k. k \<in> set envVars \<Longrightarrow> \<not> truthy (e k)) \<Longrightarrow> getEnvValue envVars e = None"
  by (induction envVars) simp_all

lemma getEnvValue_Some_nonempty:
  "getEnvValue envVars e = Some v \<Longrightarrow> v \<noteq> []"
  by (induction envVars) (auto split: if_splits)

lemma map_of_ENV_MAP_cases:
  "map_of ENV_MAP t = Some envVars \<Longrightarrow>
     envVars = [''CRAFT_ANTHROPIC_API_KEY'', ''ANTHROPIC_API_KEY''] \<or>
     envVars = [''CRAFT_CLAUDE_OAUTH_TOKEN''] \<or>
     envVars = [''ANTHROPIC_AUTH_TOKEN'']"
  by (auto simp: ENV_MAP_def split: if_splits)

lemma distinct_ENV_MAP: "distinct (map fst ENV_MAP)"
  by (simp add: ENV_MAP_def)

subsection \<open>The loop of list\<close>

lemma list_loop_filter:
  "list_loop m e ids =
     ids @ map (\<lambda>(t, envVars). \<lparr>type = t, workspaceId = None\<rparr>)
             (filter (\<lambda>(t, envVars). truthy (getEnvValue envVars e)) m)"
  by (induction m e ids rule: list_loop.induct) simp_all

lemma list_loop_set:
  "set (list_loop m e ids) =
     set ids \<union> {\<lparr>type = t, workspaceId = None\<rparr> | t.
                  \<exists>envVars. (t, envVars) \<in> set m \<and> (\<exists>k \<in> set envVars. truthy (e k))}"
  by (induction m e ids rule: list_loop.induct) (auto simp: truthy_getEnvValue)

lemma list_loop_distinct:
  assumes "distinct (map fst m)"
  shows "distinct (list_loop m e [])"
proof -
  define xs where "xs = map fst (filter (\<lambda>(t, envVars). truthy (getEnvValue envVars e)) m)"
  have eq: "list_loop m e [] = map (\<lambda>t. \<lparr>type = t, workspaceId = None\<rparr>) xs"
    by (simp add: xs_def list_loop_filter case_prod_beta comp_def)
  have d: "distinct xs"
    unfolding xs_def using assms by (rule distinct_map_filter)
  have "distinct (map (\<lambda>t. \<lparr>type = t, workspaceId = None\<rparr>) xs)"
  proof (rule iffD2 [OF distinct_map], rule conjI)
    show "distinct xs" by (rule d)
    show "inj_on (\<lambda>t. \<lparr>type = t, workspaceId = None\<rparr>) (set xs)"
      by (simp add: inj_on_def)
  qed
  with eq show ?thesis by simp
qed

subsection \<open>What the clear leaves\<close>

lemma clearAuthEnvironment_slots:
  "clearAuthEnvironment e ''ANTHROPIC_API_KEY'' = None"
  "clearAuthEnvironment e ''CLAUDE_CODE_OAUTH_TOKEN'' = None"
  "clearAuthEnvironment e ''ANTHROPIC_AUTH_TOKEN'' = None"
  "clearAuthEnvironment e ''ANTHROPIC_BASE_URL'' = None"
  by (simp_all add: clearAuthEnvironment_def env_ops)

lemma clearAuthEnvironment_craft:
  "clearAuthEnvironment e ''CRAFT_ANTHROPIC_API_KEY'' = e ''CRAFT_ANTHROPIC_API_KEY''"
  "clearAuthEnvironment e ''CRAFT_CLAUDE_OAUTH_TOKEN'' = e ''CRAFT_CLAUDE_OAUTH_TOKEN''"
  by (simp_all add: clearAuthEnvironment_def env_ops)

section \<open>The configurator\<close>

text \<open>
  C1, as the code has it. After \<^verbatim>\<open>setAuthEnvironment\<close>, whatever the environment
  was before, no managed slot that belongs to another variant is populated, and
  the slots of the active variant hold its required field and those of its
  optional fields that are non-empty strings. For an
  \<^verbatim>\<open>api_key\<close> credential the API-key slot holds \<^verbatim>\<open>apiKey\<close>, the base-URL slot holds
  \<^verbatim>\<open>baseUrl\<close> when that is a non-empty string and is unset otherwise, and the OAuth
  and proxy-auth-token slots are unset. For an \<^verbatim>\<open>oauth_token\<close> credential only the
  OAuth slot is populated, with \<^verbatim>\<open>oauthToken\<close>; the other three are unset. For a
  \<^verbatim>\<open>proxy\<close> credential the base-URL slot holds \<^verbatim>\<open>baseUrl\<close>, the proxy-auth-token and
  API-key slots hold \<^verbatim>\<open>authToken\<close> and \<^verbatim>\<open>apiKey\<close> when these are non-empty strings
  and are unset otherwise, and the OAuth slot is unset.
\<close>

theorem setAuthEnvironment_exclusive_register:
  "(case auth of
      api_key c \<Rightarrow>
        setAuthEnvironment auth e ''ANTHROPIC_API_KEY'' = Some (apiKey c) \<and>
        setAuthEnvironment auth e ''ANTHROPIC_BASE_URL'' =
          (if truthy (baseUrl c) then baseUrl c else None) \<and>
        setAuthEnvironment auth e ''CLAUDE_CODE_OAUTH_TOKEN'' = None \<and>
        setAuthEnvironment auth e ''ANTHROPIC_AUTH_TOKEN'' = None
    | oauth_token c \<Rightarrow>
        setAuthEnvironment auth e ''CLAUDE_CODE_OAUTH_TOKEN'' = Some (oauthToken c) \<and>
        setAuthEnvironment auth e ''ANTHROPIC_API_KEY'' = None \<and>
        setAuthEnvironment auth e ''ANTHROPIC_AUTH_TOKEN'' = None \<and>
        setAuthEnvironment auth e ''ANTHROPIC_BASE_URL'' = None
    | proxy c \<Rightarrow>
        setAuthEnvironment auth e ''ANTHROPIC_BASE_URL'' = Some (proxyBaseUrl c) \<and>
        setAuthEnvironment auth e ''ANTHROPIC_AUTH_TOKEN'' =
          (if truthy (authToken c) then authToken c else None) \<and>
        setAuthEnvironment auth e ''ANTHROPIC_API_KEY'' =
          (if truthy (proxyApiKey c) then proxyApiKey c else None) \<and>
        setAuthEnvironment auth e ''CLAUDE_CODE_OAUTH_TOKEN'' = None)"
  by (cases auth) (auto simp: setAuthEnvironment_def env_ops split: option.splits)

text \<open>
  C1 as stated fails: the entries a variant implies are its required field and
  every optional field that is present, and an optional field that is present
  as the empty string is not stored. For a \<^verbatim>\<open>proxy\<close> credential with
  \<^verbatim>\<open>apiKey: ''\<close> the guard \<^verbatim>\<open>if (auth.credentials.apiKey)\<close> is false, and the
  API-key slot, which the variant implies, is unset afterward.
\<close>

theorem setAuthEnvironment_proxy_empty_apiKey:
  "proxyApiKey \<lparr>authToken = Some ''t'', proxyApiKey = Some '''', proxyBaseUrl = ''u''\<rparr>
     = Some '''' \<and>
   setAuthEnvironment
     (proxy \<lparr>authToken = Some ''t'', proxyApiKey = Some '''', proxyBaseUrl = ''u''\<rparr>)
     (Map.empty(''ANTHROPIC_API_KEY'' \<mapsto> ''old'')) ''ANTHROPIC_API_KEY'' = None \<and>
   setAuthEnvironment
     (proxy \<lparr>authToken = Some ''t'', proxyApiKey = Some '''', proxyBaseUrl = ''u''\<rparr>)
     (Map.empty(''ANTHROPIC_API_KEY'' \<mapsto> ''old'')) ''ANTHROPIC_AUTH_TOKEN'' = Some ''t''"
  by (simp add: setAuthEnvironment_def env_ops)

text \<open>
  C4, as the code has it. For a \<^verbatim>\<open>proxy\<close> credential the base-URL slot equals
  \<^verbatim>\<open>baseUrl\<close>; the proxy-auth-token slot and the API-key slot are each populated
  if and only if the corresponding optional field was provided and is not the
  empty string, and then hold the field's value.
\<close>

theorem setAuthEnvironment_proxy_slots:
  "setAuthEnvironment (proxy c) e ''ANTHROPIC_BASE_URL'' = Some (proxyBaseUrl c) \<and>
   (setAuthEnvironment (proxy c) e ''ANTHROPIC_AUTH_TOKEN'' \<noteq> None) =
     (\<exists>t. authToken c = Some t \<and> t \<noteq> []) \<and>
   (setAuthEnvironment (proxy c) e ''ANTHROPIC_API_KEY'' \<noteq> None) =
     (\<exists>k. proxyApiKey c = Some k \<and> k \<noteq> []) \<and>
   setAuthEnvironment (proxy c) e ''ANTHROPIC_AUTH_TOKEN'' \<in> {None, authToken c} \<and>
   setAuthEnvironment (proxy c) e ''ANTHROPIC_API_KEY'' \<in> {None, proxyApiKey c}"
  by (auto simp: setAuthEnvironment_def env_ops split: option.splits)

text \<open>
  C4 as stated fails when a provided field is the empty string: with
  \<^verbatim>\<open>authToken: ''\<close> the guard \<^verbatim>\<open>if (auth.credentials.authToken)\<close> is false and the
  proxy-auth-token slot stays unset, although the field was provided.
\<close>

theorem setAuthEnvironment_proxy_empty_authToken:
  "\<not> ((setAuthEnvironment
          (proxy \<lparr>authToken = Some '''', proxyApiKey = None, proxyBaseUrl = ''u''\<rparr>)
          Map.empty ''ANTHROPIC_AUTH_TOKEN'' \<noteq> None)
       = (authToken \<lparr>authToken = Some '''', proxyApiKey = None, proxyBaseUrl = ''u''\<rparr> \<noteq> None))"
  by (simp add: setAuthEnvironment_def env_ops)

text \<open>
  C8, as the code has it. For an \<^verbatim>\<open>api_key\<close> credential the OAuth slot and the
  proxy-auth-token slot are unset, the API-key slot equals \<^verbatim>\<open>apiKey\<close>, and the
  base-URL slot equals \<^verbatim>\<open>baseUrl\<close> when that field is present and not the empty
  string, and is unset when the field is absent or the empty string.
\<close>

theorem setAuthEnvironment_api_key_slots:
  "setAuthEnvironment (api_key c) e ''CLAUDE_CODE_OAUTH_TOKEN'' = None \<and>
   setAuthEnvironment (api_key c) e ''ANTHROPIC_AUTH_TOKEN'' = None \<and>
   setAuthEnvironment (api_key c) e ''ANTHROPIC_API_KEY'' = Some (apiKey c) \<and>
   setAuthEnvironment (api_key c) e ''ANTHROPIC_BASE_URL'' =
     (case baseUrl c of None \<Rightarrow> None | Some b \<Rightarrow> if b = [] then None else Some b)"
  by (auto simp: setAuthEnvironment_def env_ops split: option.splits)

text \<open>
  C8 as stated fails when \<^verbatim>\<open>baseUrl\<close> is present and empty: the guard
  \<^verbatim>\<open>if (auth.credentials.baseUrl)\<close> is false, so the base-URL slot is left unset
  and does not equal the input's \<^verbatim>\<open>baseUrl\<close>.
\<close>

theorem setAuthEnvironment_api_key_empty_baseUrl:
  "baseUrl \<lparr>apiKey = ''k'', baseUrl = Some ''''\<rparr> = Some '''' \<and>
   setAuthEnvironment (api_key \<lparr>apiKey = ''k'', baseUrl = Some ''''\<rparr>) Map.empty
     ''ANTHROPIC_BASE_URL'' \<noteq> Some ''''"
  by (simp add: setAuthEnvironment_def env_ops)

text \<open>
  C9. \<^verbatim>\<open>clearAuthEnvironment\<close> leaves all four managed slots unset, whatever they
  held, and running it twice gives the same environment as running it once.
\<close>

theorem clearAuthEnvironment_idempotent:
  "clearAuthEnvironment e ''ANTHROPIC_API_KEY'' = None \<and>
   clearAuthEnvironment e ''CLAUDE_CODE_OAUTH_TOKEN'' = None \<and>
   clearAuthEnvironment e ''ANTHROPIC_AUTH_TOKEN'' = None \<and>
   clearAuthEnvironment e ''ANTHROPIC_BASE_URL'' = None \<and>
   clearAuthEnvironment (clearAuthEnvironment e) = clearAuthEnvironment e"
  by (simp add: clearAuthEnvironment_def env_ops)

text \<open>
  C10. \<^verbatim>\<open>setAuthEnvironment\<close> and \<^verbatim>\<open>clearAuthEnvironment\<close> leave every variable other
  than the four managed slots as it was; in particular \<^verbatim>\<open>CRAFT_ANTHROPIC_API_KEY\<close>
  and \<^verbatim>\<open>CRAFT_CLAUDE_OAUTH_TOKEN\<close>, which the backend reads first, are neither
  written nor cleared.
\<close>

theorem configurator_frame:
  "(k \<notin> {''ANTHROPIC_API_KEY'', ''CLAUDE_CODE_OAUTH_TOKEN'', ''ANTHROPIC_AUTH_TOKEN'',
          ''ANTHROPIC_BASE_URL''} \<longrightarrow>
      setAuthEnvironment auth e k = e k \<and> clearAuthEnvironment e k = e k) \<and>
   setAuthEnvironment auth e ''CRAFT_ANTHROPIC_API_KEY'' = e ''CRAFT_ANTHROPIC_API_KEY'' \<and>
   setAuthEnvironment auth e ''CRAFT_CLAUDE_OAUTH_TOKEN'' = e ''CRAFT_CLAUDE_OAUTH_TOKEN'' \<and>
   clearAuthEnvironment e ''CRAFT_ANTHROPIC_API_KEY'' = e ''CRAFT_ANTHROPIC_API_KEY'' \<and>
   clearAuthEnvironment e ''CRAFT_CLAUDE_OAUTH_TOKEN'' = e ''CRAFT_CLAUDE_OAUTH_TOKEN''"
  by (cases auth)
    (auto simp: setAuthEnvironment_def clearAuthEnvironment_def env_ops split: option.splits)

theorem configurator_frame_witness:
  "''PATH'' \<notin> {''ANTHROPIC_API_KEY'', ''CLAUDE_CODE_OAUTH_TOKEN'', ''ANTHROPIC_AUTH_TOKEN'',
          ''ANTHROPIC_BASE_URL''} \<and>
   setAuthEnvironment (oauth_token \<lparr>oauthToken = ''o''\<rparr>)
     (Map.empty(''PATH'' \<mapsto> ''/bin'', ''ANTHROPIC_API_KEY'' \<mapsto> ''old'')) ''PATH'' = Some ''/bin'' \<and>
   clearAuthEnvironment
     (Map.empty(''PATH'' \<mapsto> ''/bin'', ''ANTHROPIC_API_KEY'' \<mapsto> ''old'')) ''PATH'' = Some ''/bin''"
proof -
  have h: "''PATH'' \<notin> {''ANTHROPIC_API_KEY'', ''CLAUDE_CODE_OAUTH_TOKEN'',
      ''ANTHROPIC_AUTH_TOKEN'', ''ANTHROPIC_BASE_URL''}"
    by simp
  have v: "(Map.empty(''PATH'' \<mapsto> ''/bin'', ''ANTHROPIC_API_KEY'' \<mapsto> ''old'')) ''PATH'' = Some ''/bin''"
    by simp
  from h v configurator_frame [of "''PATH''" "oauth_token \<lparr>oauthToken = ''o''\<rparr>"
      "Map.empty(''PATH'' \<mapsto> ''/bin'', ''ANTHROPIC_API_KEY'' \<mapsto> ''old'')"]
  show ?thesis by metis
qed

text \<open>
  C5. \<^verbatim>\<open>isProxyAuthConfigured\<close> and \<^verbatim>\<open>hasEnvProxyConfig\<close> return the same boolean,
  which is true if and only if the base-URL slot is non-empty and the
  proxy-auth-token slot or the API-key slot is non-empty; both leave the
  environment as it was.
\<close>

theorem proxy_predicates_agree:
  "fst (isProxyAuthConfigured e) = fst (hasEnvProxyConfig e) \<and>
   fst (isProxyAuthConfigured e) =
     ((\<exists>u. e ''ANTHROPIC_BASE_URL'' = Some u \<and> u \<noteq> []) \<and>
      ((\<exists>t. e ''ANTHROPIC_AUTH_TOKEN'' = Some t \<and> t \<noteq> []) \<or>
       (\<exists>k. e ''ANTHROPIC_API_KEY'' = Some k \<and> k \<noteq> []))) \<and>
   snd (isProxyAuthConfigured e) = e \<and> snd (hasEnvProxyConfig e) = e"
  by (auto simp: isProxyAuthConfigured_def hasEnvProxyConfig_def js_and_def js_or_def
      truthy_def split: option.splits)

section \<open>The backend\<close>

text \<open>
  C3, as the code has it. \<^verbatim>\<open>get\<close> never throws and leaves the environment as it
  was. It returns \<^verbatim>\<open>null\<close> when \<^verbatim>\<open>id.workspaceId\<close> is a non-empty string, when
  \<^verbatim>\<open>id.type\<close> has no entry in \<^verbatim>\<open>ENV_MAP\<close>, and when none of the mapped variables
  holds a non-empty value. Otherwise, that is when \<^verbatim>\<open>id.workspaceId\<close> is absent
  or the empty string and some mapped variable holds a non-empty value, it
  returns the value of the first such variable in the mapped list.
\<close>

theorem EnvironmentBackend_get_result:
  "snd (EnvironmentBackend_get cid e) = e \<and>
   (truthy (workspaceId cid) \<longrightarrow> fst (EnvironmentBackend_get cid e) = Inr None) \<and>
   (map_of ENV_MAP (type cid) = None \<longrightarrow> fst (EnvironmentBackend_get cid e) = Inr None) \<and>
   (\<forall>envVars. map_of ENV_MAP (type cid) = Some envVars \<and>
        (\<forall>k \<in> set envVars. \<not> truthy (e k))
      \<longrightarrow> fst (EnvironmentBackend_get cid e) = Inr None) \<and>
   (\<forall>envVars k v. \<not> truthy (workspaceId cid) \<and>
        map_of ENV_MAP (type cid) = Some envVars \<and>
        find (\<lambda>k. truthy (e k)) envVars = Some k \<and> e k = Some v
      \<longrightarrow> fst (EnvironmentBackend_get cid e) = Inr (Some \<lparr>cred_value = v\<rparr>))"
proof (intro conjI allI impI)
  show "snd (EnvironmentBackend_get cid e) = e"
    by (simp add: EnvironmentBackend_get_def split: option.splits)
next
  assume "truthy (workspaceId cid)"
  then show "fst (EnvironmentBackend_get cid e) = Inr None"
    by (simp add: EnvironmentBackend_get_def)
next
  assume "map_of ENV_MAP (type cid) = None"
  then show "fst (EnvironmentBackend_get cid e) = Inr None"
    by (simp add: EnvironmentBackend_get_def)
next
  fix envVars
  assume h: "map_of ENV_MAP (type cid) = Some envVars \<and> (\<forall>k \<in> set envVars. \<not> truthy (e k))"
  then have "getEnvValue envVars e = None"
    by (simp add: getEnvValue_all_falsy)
  with h show "fst (EnvironmentBackend_get cid e) = Inr None"
    by (simp add: EnvironmentBackend_get_def)
next
  fix envVars k v
  assume h: "\<not> truthy (workspaceId cid) \<and> map_of ENV_MAP (type cid) = Some envVars \<and>
       find (\<lambda>k. truthy (e k)) envVars = Some k \<and> e k = Some v"
  then have g: "getEnvValue envVars e = Some v"
    by (simp add: getEnvValue_find)
  then have "v \<noteq> []"
    by (rule getEnvValue_Some_nonempty)
  with h g show "fst (EnvironmentBackend_get cid e) = Inr (Some \<lparr>cred_value = v\<rparr>)"
    by (simp add: EnvironmentBackend_get_def)
qed

text \<open>
  The four cases at concrete inputs. With \<^verbatim>\<open>CRAFT_ANTHROPIC_API_KEY="a"\<close> and
  \<^verbatim>\<open>ANTHROPIC_API_KEY="b"\<close> both set, \<^verbatim>\<open>get({type:'anthropic_api_key'})\<close> returns
  \<^verbatim>\<open>"a"\<close>; with a workspace, an unmapped type or an empty environment it returns
  \<^verbatim>\<open>null\<close>.
\<close>

theorem EnvironmentBackend_get_result_witness:
  "fst (EnvironmentBackend_get \<lparr>type = ''anthropic_api_key'', workspaceId = None\<rparr>
          (Map.empty(''CRAFT_ANTHROPIC_API_KEY'' \<mapsto> ''a'', ''ANTHROPIC_API_KEY'' \<mapsto> ''b'')))
     = Inr (Some \<lparr>cred_value = ''a''\<rparr>) \<and>
   fst (EnvironmentBackend_get \<lparr>type = ''anthropic_api_key'', workspaceId = Some ''w''\<rparr>
          (Map.empty(''CRAFT_ANTHROPIC_API_KEY'' \<mapsto> ''a'', ''ANTHROPIC_API_KEY'' \<mapsto> ''b'')))
     = Inr None \<and>
   fst (EnvironmentBackend_get \<lparr>type = ''source_oauth'', workspaceId = None\<rparr>
          (Map.empty(''CRAFT_ANTHROPIC_API_KEY'' \<mapsto> ''a'', ''ANTHROPIC_API_KEY'' \<mapsto> ''b'')))
     = Inr None \<and>
   fst (EnvironmentBackend_get \<lparr>type = ''claude_oauth'', workspaceId = None\<rparr>
          (Map.empty(''CRAFT_ANTHROPIC_API_KEY'' \<mapsto> ''a'', ''ANTHROPIC_API_KEY'' \<mapsto> ''b'')))
     = Inr None"
proof -
  let ?e = "Map.empty(''CRAFT_ANTHROPIC_API_KEY'' \<mapsto> ''a'', ''ANTHROPIC_API_KEY'' \<mapsto> ''b'')"
  let ?key = "\<lparr>type = ''anthropic_api_key'', workspaceId = None\<rparr>"
  let ?scoped = "\<lparr>type = ''anthropic_api_key'', workspaceId = Some ''w''\<rparr>"
  let ?other = "\<lparr>type = ''source_oauth'', workspaceId = None\<rparr>"
  let ?oauth = "\<lparr>type = ''claude_oauth'', workspaceId = None\<rparr>"
  have h1: "\<not> truthy (workspaceId ?key) \<and>
      map_of ENV_MAP (type ?key) = Some [''CRAFT_ANTHROPIC_API_KEY'', ''ANTHROPIC_API_KEY''] \<and>
      find (\<lambda>k. truthy (?e k)) [''CRAFT_ANTHROPIC_API_KEY'', ''ANTHROPIC_API_KEY'']
        = Some ''CRAFT_ANTHROPIC_API_KEY'' \<and>
      ?e ''CRAFT_ANTHROPIC_API_KEY'' = Some ''a''"
    by (simp add: ENV_MAP_def)
  have h2: "truthy (workspaceId ?scoped)"
    by simp
  have h3: "map_of ENV_MAP (type ?other) = None"
    by (simp add: ENV_MAP_def)
  have h4: "map_of ENV_MAP (type ?oauth) = Some [''CRAFT_CLAUDE_OAUTH_TOKEN''] \<and>
      (\<forall>k \<in> set [''CRAFT_CLAUDE_OAUTH_TOKEN'']. \<not> truthy (?e k))"
    by (simp add: ENV_MAP_def)
  have r1: "fst (EnvironmentBackend_get ?key ?e) = Inr (Some \<lparr>cred_value = ''a''\<rparr>)"
    using EnvironmentBackend_get_result [of ?key ?e] h1 by blast
  have r2: "fst (EnvironmentBackend_get ?scoped ?e) = Inr None"
    using EnvironmentBackend_get_result [of ?scoped ?e] h2 by blast
  have r3: "fst (EnvironmentBackend_get ?other ?e) = Inr None"
    using EnvironmentBackend_get_result [of ?other ?e] h3 by blast
  have r4: "fst (EnvironmentBackend_get ?oauth ?e) = Inr None"
    using EnvironmentBackend_get_result [of ?oauth ?e] h4 by blast
  from r1 r2 r3 r4 show ?thesis by blast
qed

text \<open>
  C3 as stated fails for a \<^verbatim>\<open>workspaceId\<close> that is set to the empty string: the
  guard \<^verbatim>\<open>if (id.workspaceId)\<close> is false, the lookup goes on, and with
  \<^verbatim>\<open>ANTHROPIC_API_KEY="b"\<close> the result is \<^verbatim>\<open>{ value: "b" }\<close>, not \<^verbatim>\<open>null\<close>.
\<close>

theorem EnvironmentBackend_get_empty_workspaceId:
  "workspaceId \<lparr>type = ''anthropic_api_key'', workspaceId = Some ''''\<rparr> = Some '''' \<and>
   fst (EnvironmentBackend_get \<lparr>type = ''anthropic_api_key'', workspaceId = Some ''''\<rparr>
          (Map.empty(''ANTHROPIC_API_KEY'' \<mapsto> ''b''))) = Inr (Some \<lparr>cred_value = ''b''\<rparr>)"
  by (simp add: EnvironmentBackend_get_def ENV_MAP_def)

text \<open>
  C6. \<^verbatim>\<open>list\<close> returns the same for every filter argument, never throws and
  leaves the environment as it was. Its result has no duplicates and holds
  exactly the identities \<^verbatim>\<open>{ type }\<close>, without a workspace, of the types in
  \<^verbatim>\<open>ENV_MAP\<close> with at least one mapped variable that holds a non-empty value.
  (An identity has no field for the credential's value.)
\<close>

theorem EnvironmentBackend_list_result:
  "EnvironmentBackend_list filter_arg e = EnvironmentBackend_list filter_arg' e \<and>
   snd (EnvironmentBackend_list filter_arg e) = e \<and>
   (\<exists>ids. fst (EnvironmentBackend_list filter_arg e) = Inr ids \<and> distinct ids \<and>
      set ids = {\<lparr>type = t, workspaceId = None\<rparr> | t.
                   \<exists>envVars. (t, envVars) \<in> set ENV_MAP \<and>
                     (\<exists>k \<in> set envVars. \<exists>v. e k = Some v \<and> v \<noteq> [])})"
proof -
  have "truthy (e k) = (\<exists>v. e k = Some v \<and> v \<noteq> [])" for k
    by (cases "e k") simp_all
  then show ?thesis
    by (simp add: EnvironmentBackend_list_def list_loop_set list_loop_distinct distinct_ENV_MAP)
qed

text \<open>With only \<^verbatim>\<open>ANTHROPIC_AUTH_TOKEN\<close> set, \<^verbatim>\<open>list\<close> returns that one type.\<close>

lemma EnvironmentBackend_list_auth_token_only:
  "fst (EnvironmentBackend_list None (Map.empty(''ANTHROPIC_AUTH_TOKEN'' \<mapsto> ''t''))) =
     Inr [\<lparr>type = ''anthropic_auth_token'', workspaceId = None\<rparr>]"
  by (simp add: EnvironmentBackend_list_def ENV_MAP_def)

text \<open>
  C7. \<^verbatim>\<open>set\<close> throws its read-only error for every identity and credential,
  \<^verbatim>\<open>delete\<close> returns \<^verbatim>\<open>false\<close> for every identity without throwing, and both leave
  the environment as it was.
\<close>

theorem EnvironmentBackend_set_delete_read_only:
  "fst (EnvironmentBackend_set cid credential e) = Inl ReadOnly \<and>
   snd (EnvironmentBackend_set cid credential e) = e \<and>
   fst (EnvironmentBackend_delete cid e) = Inr False \<and>
   snd (EnvironmentBackend_delete cid e) = e"
  by (simp add: EnvironmentBackend_set_def EnvironmentBackend_delete_def)

section \<open>Clearing, then querying\<close>

text \<open>
  C2, as the code has it. After \<^verbatim>\<open>clearAuthEnvironment\<close>, \<^verbatim>\<open>isProxyAuthConfigured\<close>
  returns false; and when neither \<^verbatim>\<open>CRAFT_ANTHROPIC_API_KEY\<close> nor
  \<^verbatim>\<open>CRAFT_CLAUDE_OAUTH_TOKEN\<close> holds a non-empty value, \<^verbatim>\<open>get\<close> returns \<^verbatim>\<open>null\<close> for
  every identity and \<^verbatim>\<open>list\<close> returns the empty list. None of the three queries
  changes the environment, so the same holds for every later query.
\<close>

theorem clearAuthEnvironment_then_queries:
  "fst (isProxyAuthConfigured (clearAuthEnvironment e)) = False \<and>
   snd (isProxyAuthConfigured (clearAuthEnvironment e)) = clearAuthEnvironment e \<and>
   snd (EnvironmentBackend_get cid (clearAuthEnvironment e)) = clearAuthEnvironment e \<and>
   snd (EnvironmentBackend_list filter_arg (clearAuthEnvironment e)) = clearAuthEnvironment e \<and>
   (\<not> truthy (e ''CRAFT_ANTHROPIC_API_KEY'') \<and> \<not> truthy (e ''CRAFT_CLAUDE_OAUTH_TOKEN'') \<longrightarrow>
      fst (EnvironmentBackend_get cid (clearAuthEnvironment e)) = Inr None \<and>
      fst (EnvironmentBackend_list filter_arg (clearAuthEnvironment e)) = Inr [])"
proof -
  let ?c = "clearAuthEnvironment e"
  note frame = clearAuthEnvironment_craft [of e]
  note gone = clearAuthEnvironment_slots [of e]
  have p: "fst (isProxyAuthConfigured ?c) = False"
    by (simp add: isProxyAuthConfigured_def js_and_def gone)
  have s: "snd (isProxyAuthConfigured ?c) = ?c" "snd (EnvironmentBackend_get cid ?c) = ?c"
      "snd (EnvironmentBackend_list filter_arg ?c) = ?c"
    by (simp_all add: isProxyAuthConfigured_def EnvironmentBackend_get_def
        EnvironmentBackend_list_def split: option.splits)
  have q: "fst (EnvironmentBackend_get cid ?c) = Inr None \<and>
      fst (EnvironmentBackend_list filter_arg ?c) = Inr []"
    if h: "\<not> truthy (e ''CRAFT_ANTHROPIC_API_KEY'') \<and> \<not> truthy (e ''CRAFT_CLAUDE_OAUTH_TOKEN'')"
  proof -
    have v: "getEnvValue envVars ?c = None" if "map_of ENV_MAP t = Some envVars" for t envVars
      using map_of_ENV_MAP_cases [OF that] h by (auto simp: frame gone)
    have "fst (EnvironmentBackend_get cid ?c) = Inr None"
      by (simp add: EnvironmentBackend_get_def v split: option.splits)
    moreover have "fst (EnvironmentBackend_list filter_arg ?c) = Inr []"
      using h by (simp add: EnvironmentBackend_list_def ENV_MAP_def frame gone)
    ultimately show ?thesis by simp
  qed
  from p s q show ?thesis by blast
qed

theorem clearAuthEnvironment_then_queries_witness:
  "\<not> truthy ((Map.empty(''ANTHROPIC_API_KEY'' \<mapsto> ''k'', ''ANTHROPIC_BASE_URL'' \<mapsto> ''u''))
        ''CRAFT_ANTHROPIC_API_KEY'') \<and>
   \<not> truthy ((Map.empty(''ANTHROPIC_API_KEY'' \<mapsto> ''k'', ''ANTHROPIC_BASE_URL'' \<mapsto> ''u''))
        ''CRAFT_CLAUDE_OAUTH_TOKEN'') \<and>
   fst (isProxyAuthConfigured
          (Map.empty(''ANTHROPIC_API_KEY'' \<mapsto> ''k'', ''ANTHROPIC_BASE_URL'' \<mapsto> ''u''))) = True \<and>
   fst (isProxyAuthConfigured (clearAuthEnvironment
          (Map.empty(''ANTHROPIC_API_KEY'' \<mapsto> ''k'', ''ANTHROPIC_BASE_URL'' \<mapsto> ''u'')))) = False \<and>
   fst (EnvironmentBackend_get \<lparr>type = ''anthropic_api_key'', workspaceId = None\<rparr>
          (Map.empty(''ANTHROPIC_API_KEY'' \<mapsto> ''k'', ''ANTHROPIC_BASE_URL'' \<mapsto> ''u'')))
     = Inr (Some \<lparr>cred_value = ''k''\<rparr>) \<and>
   fst (EnvironmentBackend_get \<lparr>type = ''anthropic_api_key'', workspaceId = None\<rparr>
          (clearAuthEnvironment
             (Map.empty(''ANTHROPIC_API_KEY'' \<mapsto> ''k'', ''ANTHROPIC_BASE_URL'' \<mapsto> ''u''))))
     = Inr None \<and>
   fst (EnvironmentBackend_list None
          (clearAuthEnvironment
             (Map.empty(''ANTHROPIC_API_KEY'' \<mapsto> ''k'', ''ANTHROPIC_BASE_URL'' \<mapsto> ''u''))))
     = Inr []"
proof -
  let ?e = "Map.empty(''ANTHROPIC_API_KEY'' \<mapsto> ''k'', ''ANTHROPIC_BASE_URL'' \<mapsto> ''u'')"
  let ?key = "\<lparr>type = ''anthropic_api_key'', workspaceId = None\<rparr>"
  have h: "\<not> truthy (?e ''CRAFT_ANTHROPIC_API_KEY'') \<and> \<not> truthy (?e ''CRAFT_CLAUDE_OAUTH_TOKEN'')"
    by simp
  have before: "fst (isProxyAuthConfigured ?e) = True"
      "fst (EnvironmentBackend_get ?key ?e) = Inr (Some \<lparr>cred_value = ''k''\<rparr>)"
    by (simp_all add: isProxyAuthConfigured_def js_and_def js_or_def
        EnvironmentBackend_get_def ENV_MAP_def)
  from clearAuthEnvironment_then_queries [of ?e ?key None] h
  have "fst (isProxyAuthConfigured (clearAuthEnvironment ?e)) = False \<and>
      fst (EnvironmentBackend_get ?key (clearAuthEnvironment ?e)) = Inr None \<and>
      fst (EnvironmentBackend_list None (clearAuthEnvironment ?e)) = Inr []"
    by blast
  with h before show ?thesis by blast
qed

text \<open>
  C2 as stated fails: the configurator manages four variables, and
  \<^verbatim>\<open>CRAFT_ANTHROPIC_API_KEY\<close>, which the backend reads first, is not one of them.
  With it set to \<^verbatim>\<open>"a"\<close>, after \<^verbatim>\<open>clearAuthEnvironment\<close> the backend still resolves
  the API key and lists its type.
\<close>

theorem clearAuthEnvironment_keeps_craft_key:
  "fst (EnvironmentBackend_get \<lparr>type = ''anthropic_api_key'', workspaceId = None\<rparr>
          (clearAuthEnvironment (Map.empty(''CRAFT_ANTHROPIC_API_KEY'' \<mapsto> ''a''))))
     = Inr (Some \<lparr>cred_value = ''a''\<rparr>) \<and>
   fst (EnvironmentBackend_list None
          (clearAuthEnvironment (Map.empty(''CRAFT_ANTHROPIC_API_KEY'' \<mapsto> ''a''))))
     = Inr [\<lparr>type = ''anthropic_api_key'', workspaceId = None\<rparr>]"
  by (simp add: EnvironmentBackend_get_def EnvironmentBackend_list_def ENV_MAP_def
      clearAuthEnvironment_def env_ops)

end
